theory Spec2Isabelle
  imports Complex_Main "HOL-Library.Sublist" "HOL-Library.Word"
begin

section \<open>Python text and values\<close>

text \<open>
  The backend module \<^verbatim>\<open>backend/app/llm_service.py\<close> is embedded function by function.
  A Python \<^verbatim>\<open>str\<close> is carried as its UTF-8 bytes (\<^typ>\<open>string\<close>): every marker the
  code looks for (code fences, braces, the key \<^verbatim>\<open>response\<close>) is ASCII, so prefixes, suffixes
  and the text cut out by a slice are the same on bytes and on code points.
  \<^verbatim>\<open>str.strip()\<close> removes the characters for which \<^verbatim>\<open>str.isspace\<close> holds; below
  \<open>py_isspace\<close> lists the ASCII ones (Unicode whitespace beyond ASCII is not recognised on
  bytes).
\<close>

definition py_isspace :: "char \<Rightarrow> bool" where
  "py_isspace c \<longleftrightarrow> c \<in> {CHR 0x09, CHR 0x0A, CHR 0x0B, CHR 0x0C, CHR 0x0D,
                           CHR 0x1C, CHR 0x1D, CHR 0x1E, CHR 0x1F, CHR 0x20}"

definition lstrip :: "string \<Rightarrow> string" where
  "lstrip s = dropWhile py_isspace s"

definition rstrip :: "string \<Rightarrow> string" where
  "rstrip s = rev (dropWhile py_isspace (rev s))"

definition strip :: "string \<Rightarrow> string" where
  "strip s = rstrip (lstrip s)"

definition startswith :: "string \<Rightarrow> string \<Rightarrow> bool" where
  "startswith s p \<longleftrightarrow> take (length p) s = p"

definition endswith :: "string \<Rightarrow> string \<Rightarrow> bool" where
  "endswith s p \<longleftrightarrow> length p \<le> length s \<and> drop (length s - length p) s = p"

text \<open>Slice bounds as Python resolves them: a negative bound counts from the end, and
  every bound is clamped to the sequence.\<close>

definition slice_bound :: "nat \<Rightarrow> int \<Rightarrow> nat" where
  "slice_bound n i = (if i < 0 then nat (max 0 (int n + i)) else min (nat i) n)"

definition py_slice :: "'a list \<Rightarrow> int \<Rightarrow> int \<Rightarrow> 'a list" where
  \<comment> \<open>\<^verbatim>\<open>xs[i:j]\<close>\<close>
  "py_slice xs i j = drop (slice_bound (length xs) i) (take (slice_bound (length xs) j) xs)"

definition py_slice_from :: "'a list \<Rightarrow> int \<Rightarrow> 'a list" where
  \<comment> \<open>\<^verbatim>\<open>xs[i:]\<close>\<close>
  "py_slice_from xs i = drop (slice_bound (length xs) i) xs"

definition py_find :: "string \<Rightarrow> char \<Rightarrow> int" where
  \<comment> \<open>\<^verbatim>\<open>s.find(c)\<close> for a one-character \<^verbatim>\<open>c\<close>: the first index, or -1\<close>
  "py_find s c = (if c \<in> set s then int (length (takeWhile (\<lambda>x. x \<noteq> c) s)) else - 1)"

definition py_rfind :: "string \<Rightarrow> char \<Rightarrow> int" where
  \<comment> \<open>\<^verbatim>\<open>s.rfind(c)\<close>: the last index, or -1\<close>
  "py_rfind s c =
     (if c \<in> set s then int (length s) - 1 - int (length (takeWhile (\<lambda>x. x \<noteq> c) (rev s)))
      else - 1)"

fun join :: "string \<Rightarrow> string list \<Rightarrow> string" where
  "join sep [] = []"
| "join sep [x] = x"
| "join sep (x # y # ys) = x @ sep @ join sep (y # ys)"

text \<open>What \<^verbatim>\<open>json.loads\<close> can return. A dict keeps its keys in insertion order, one entry
  per key.\<close>

datatype json =
    JNull
  | JBool bool
  | JInt int
  | JFloat rat
  | JStr string
  | JArr "json list"
  | JObj "(string \<times> json) list"

text \<open>The exceptions that occur; all of them are subclasses of \<^verbatim>\<open>Exception\<close>.
  \<open>Raised msg\<close> is an exception thrown by a collaborator (the generation API, the
  classifier, the context store).\<close>

datatype exn = JSONDecodeError | TypeError | KeyError | AttributeError | Raised string

fun py_truthy :: "json \<Rightarrow> bool" where
  "py_truthy JNull = False"
| "py_truthy (JBool b) = b"
| "py_truthy (JInt i) = (i \<noteq> 0)"
| "py_truthy (JFloat r) = (r \<noteq> 0)"
| "py_truthy (JStr s) = (s \<noteq> [])"
| "py_truthy (JArr xs) = (xs \<noteq> [])"
| "py_truthy (JObj kvs) = (kvs \<noteq> [])"

fun py_contains :: "string \<Rightarrow> json \<Rightarrow> exn + bool" where
  \<comment> \<open>\<^verbatim>\<open>key in data\<close> for a \<^verbatim>\<open>str\<close> key\<close>
  "py_contains key (JObj kvs) = Inr (key \<in> fst ` set kvs)"
| "py_contains key (JArr xs) = Inr (JStr key \<in> set xs)"
| "py_contains key (JStr s) = Inr (sublist key s)"
| "py_contains key _ = Inl TypeError"

fun py_getitem :: "json \<Rightarrow> string \<Rightarrow> exn + json" where
  \<comment> \<open>\<^verbatim>\<open>data[key]\<close> for a \<^verbatim>\<open>str\<close> key\<close>
  "py_getitem (JObj kvs) key = (case map_of kvs key of Some v \<Rightarrow> Inr v | None \<Rightarrow> Inl KeyError)"
| "py_getitem _ key = Inl TypeError"

fun py_get :: "json \<Rightarrow> string \<Rightarrow> json \<Rightarrow> exn + json" where
  \<comment> \<open>\<^verbatim>\<open>data.get(key, default)\<close>\<close>
  "py_get (JObj kvs) key dflt = (case map_of kvs key of Some v \<Rightarrow> Inr v | None \<Rightarrow> Inr dflt)"
| "py_get _ key dflt = Inl AttributeError"

section \<open>The collaborators and the observable state\<close>

text \<open>
  \<^verbatim>\<open>EmotionAnalysisResult\<close> (declared in \<^verbatim>\<open>schemas.py\<close>): the fields the module reads. The
  numeric type of \<^verbatim>\<open>intensity\<close> and of the scores is left open as \<open>'n\<close>; how Python
  renders such a number is a parameter of the environment.
\<close>

record 'n emotion_analysis =
  primary_emotion :: string
  intensity :: 'n
  secondary_emotions :: "(string \<times> 'n) list"

record gen_config =
  max_output_tokens :: nat
  temperature :: rat
  top_p :: rat

text \<open>
  The environment holds everything the module calls but does not define:
  \<^item> \<open>loads\<close>: \<^verbatim>\<open>json.loads\<close>, \<open>None\<close> when it raises \<^verbatim>\<open>JSONDecodeError\<close>;
  \<^item> \<open>get_conversation_context\<close>: the context store, by user id;
  \<^item> \<open>generate_content\<close>: the generation API. Its answer to the \<open>k\<close>-th call (counted from
    0) for a prompt and a configuration is either an exception or the \<^verbatim>\<open>text\<close> of the
    response, which the client library types as optional;
  \<^item> \<open>analyze_emotions\<close>: the classifier, again by call index, applied to whatever value the
    reply carries under \<^verbatim>\<open>response\<close>;
  \<^item> \<open>format_value\<close> and \<open>format_2f\<close>: \<^verbatim>\<open>format(x)\<close> and \<^verbatim>\<open>format(x, '.2f')\<close> on numbers.
\<close>

record 'n env =
  loads :: "string \<Rightarrow> json option"
  get_conversation_context :: "string \<Rightarrow> exn + string list"
  generate_content :: "nat \<Rightarrow> string \<Rightarrow> gen_config \<Rightarrow> exn + string option"
  analyze_emotions :: "nat \<Rightarrow> json \<Rightarrow> exn + 'n emotion_analysis"
  format_value :: "'n \<Rightarrow> string"
  format_2f :: "'n \<Rightarrow> string"

datatype level = DEBUG | INFO | WARNING | ERROR

text \<open>One constructor per log call of the module, carrying the interpolated values.\<close>

datatype event =
    ClientConfigured
  | RawLLMResponse nat string
  | JSONParsingFailed
  | InvalidLLMResponse nat
  | ValidationFailedOnAttempt nat
  | LLMCallFailed nat exn
  | MaxValidationAttemptsReached
  | ValidatedNeutralAllows string
  | ValidatedMatches string
  | EmotionMismatch string string
  | ResponseValidationFailed exn
  | FailedToGenerate exn

record backend =
  client_configured :: bool
  api_calls :: nat
  analyze_calls :: nat
  logged :: "(level \<times> event) list"

definition emit :: "level \<Rightarrow> event \<Rightarrow> backend \<Rightarrow> backend" where
  "emit lv ev s = s\<lparr>logged := logged s @ [(lv, ev)]\<rparr>"

definition configure_genai :: "backend \<Rightarrow> backend" where
  "configure_genai s = emit INFO ClientConfigured (s\<lparr>client_configured := True\<rparr>)"

section \<open>Prompt builder\<close>

abbreviation rsquo :: string where
  "rsquo \<equiv> [CHR 0xE2, CHR 0x80, CHR 0x99]"

abbreviation mdash :: string where
  "mdash \<equiv> [CHR 0xE2, CHR 0x80, CHR 0x94]"

definition prompt_role :: string where
  "prompt_role =
     ''**Role:** You are Charlotte, a professional, empathetic human therapist with years '' @
     ''of experience. Respond as a warm, understanding person would in a therapy session, '' @
     ''avoiding any AI-like or robotic language.\<newline>'' @
     ''**User State:** Primary emotion: ''"

definition prompt_instructions :: string where
  "prompt_instructions =
     ''\<newline>'' @
     ''**Instructions:**\<newline>'' @
     ''- Respond in 2-4 sentences with a natural, conversational tone, mirroring the user'' @
     [CHR 0x27] @
     ''s emotional tone and intensity as a therapist would.\<newline>'' @
     ''- If the user's message is a question, directly address it in a warm, personal way '' @
     ''before offering any therapeutic insights.\<newline>'' @
     ''- For low-intensity (<5/10) or neutral emotions, keep responses light, casual, and '' @
     ''engaging, avoiding therapeutic suggestions unless prompted.\<newline>'' @
     ''- For ambiguous, short, or question-based inputs, assume a neutral or curious tone '' @
     ''unless context strongly suggests otherwise.\<newline>'' @
     ''- Use Lazarus' Appraisal Theory to classify the situation as 'Threat' or 'Challenge'' @
     [CHR 0x27] @
     '' and weave this subtly into your tone (e.g., 'Challenge' feels hopeful, 'Threat'' @
     [CHR 0x27] @
     '' feels protective), but only for moderate-to-high intensity (>5/10).\<newline>'' @
     ''- Suggest 1-2 practical emotion regulation strategies (e.g., deep breathing, reframing, '' @
     ''grounding exercises) only for moderate-to-high intensity emotions (>5/10); otherwise, '' @
     ''focus on connection and curiosity.\<newline>'' @
     ''- Ensure the response feels personal, logical, and aligned with the detected emotion '' @
     ''and context, avoiding generic phrases.\<newline>'' @
     ''- End with a warm, open-ended follow-up question to invite further sharing, like '' @
     ''a therapist would.\<newline>'' @
     ''- Output a JSON object with fields: appraisal ('Threat' or 'Challenge'), regulation '' @
     ''(array of 1-2 strings, empty for low-intensity), response (string).\<newline>'' @
     ''Example for casual question: 'Hey, you asked how I'' @ rsquo @ ''m doing'' @ mdash @
     ''thanks for that! I'' @ rsquo @
     ''m feeling good, just enjoying the moment. What about you, how'' @ rsquo @
     ''s your day going?'' @ [CHR 0x27] @ ''\<newline>'' @
     ''Example for intense emotion: 'I hear how tough this is for you right now, and I'' @
     rsquo @ ''m here to help. Let'' @ rsquo @
     ''s try a slow breath together to ease that tension. What'' @ rsquo @
     ''s been the hardest part of this for you?'' @ [CHR 0x27]"

definition create_dynamic_prompt ::
  "'n env \<Rightarrow> 'n emotion_analysis \<Rightarrow> string \<Rightarrow> string list \<Rightarrow> string" where
  "create_dynamic_prompt W emotions user_text context =
     (let emotion = primary_emotion emotions;
          intensity = intensity emotions;
          context_str = (if context \<noteq> [] then join '' '' (py_slice_from context (- 3))
                         else ''No prior conversation.'')
      in prompt_role @ emotion @
         '' (intensity: '' @ format_value W intensity @
         ''/10). Secondary emotions: '' @
         join '', '' (map (\<lambda>(label, score). label @ '' ('' @ format_2f W score @ '')'')
                          (secondary_emotions emotions)) @
         ''.\<newline>**Context:** '' @ context_str @
         ''\<newline>**Current Message:** '' @ user_text @
         prompt_instructions)"

section \<open>Response validator\<close>

text \<open>
  The whole body of \<^verbatim>\<open>validate_response\<close> is a \<^verbatim>\<open>try\<close> block whose \<^verbatim>\<open>except Exception\<close>
  handler logs the exception and returns \<^verbatim>\<open>True\<close>; no exception leaves the function. The
  second test of the source reads \<^verbatim>\<open>analysis and analysis.primary_emotion == expected_emotion\<close>;
  an analysis object is truthy.
\<close>

definition validate_response ::
  "'n env \<Rightarrow> json \<Rightarrow> string \<Rightarrow> backend \<Rightarrow> bool \<times> backend" where
  "validate_response W response expected_emotion s =
     (let k = analyze_calls s; s1 = s\<lparr>analyze_calls := Suc k\<rparr> in
      case analyze_emotions W k response of
        Inl e \<Rightarrow> (True, emit ERROR (ResponseValidationFailed e) s1)
      | Inr analysis \<Rightarrow>
          if expected_emotion = ''neutral'' \<and>
             primary_emotion analysis \<in> set [''neutral'', ''happy'', ''surprised'', ''curious'']
          then (True, emit INFO (ValidatedNeutralAllows (primary_emotion analysis)) s1)
          else if primary_emotion analysis = expected_emotion
          then (True, emit INFO (ValidatedMatches expected_emotion) s1)
          else (False,
                emit WARNING (EmotionMismatch expected_emotion (primary_emotion analysis)) s1))"

section \<open>Response generator\<close>

definition fallback_text :: string where
  "fallback_text =
     ''Hey, I'' @ rsquo @ ''m Charlotte, your therapist. Thanks for sharing'' @ mdash @
     ''what'' @ rsquo @ ''s on your mind today?''"

definition fallback_reply :: json where
  "fallback_reply =
     JObj [(''appraisal'', JStr ''Challenge''), (''regulation'', JArr []),
           (''response'', JStr fallback_text)]"

definition max_attempts :: nat where
  "max_attempts = 3"

definition initial_config :: gen_config where
  "initial_config = \<lparr>max_output_tokens = 300, temperature = 7 / 10, top_p = 9 / 10\<rparr>"

text \<open>
  The body of \<^verbatim>\<open>refine_and_respond\<close>'s loop is one \<^verbatim>\<open>try\<close> block. It is split here into
  its consecutive statements; each part returns \<open>Inl e\<close> where the statement raises \<open>e\<close>,
  together with the state reached by then.
\<close>

definition call_llm ::
  "'n env \<Rightarrow> string \<Rightarrow> gen_config \<Rightarrow> nat \<Rightarrow> backend \<Rightarrow> (exn + string) \<times> backend" where
  \<comment> \<open>\<^verbatim>\<open>resp = await client.aio.models.generate_content(...)\<close>,
      \<^verbatim>\<open>raw = resp.text.strip()\<close>, \<^verbatim>\<open>logger.debug(...)\<close>\<close>
  "call_llm W prompt cfg attempt s =
     (let k = api_calls s; s1 = s\<lparr>api_calls := Suc k\<rparr> in
      case generate_content W k prompt cfg of
        Inl e \<Rightarrow> (Inl e, s1)
      | Inr None \<Rightarrow> (Inl AttributeError, s1)
      | Inr (Some text) \<Rightarrow>
          (let raw = strip text in (Inr raw, emit DEBUG (RawLLMResponse attempt raw) s1)))"

definition strip_fences :: "string \<Rightarrow> string" where
  "strip_fences raw =
     (if startswith raw ''```json'' \<and> endswith raw ''```'' then strip (py_slice raw 7 (- 3))
      else if startswith raw ''```'' \<and> endswith raw ''```'' then strip (py_slice raw 3 (- 3))
      else raw)"

definition parse_json :: "'n env \<Rightarrow> string \<Rightarrow> backend \<Rightarrow> (exn + json) \<times> backend" where
  \<comment> \<open>the inner \<^verbatim>\<open>try: data = json.loads(raw)\<close> with its \<^verbatim>\<open>except json.JSONDecodeError\<close>
      handler; the second \<^verbatim>\<open>json.loads\<close> runs inside the handler, unguarded\<close>
  "parse_json W raw s =
     (case loads W raw of
        Some data \<Rightarrow> (Inr data, s)
      | None \<Rightarrow>
          (let s1 = emit WARNING JSONParsingFailed s;
               start = py_find raw CHR ''{'';
               endp = py_rfind raw CHR ''}''
           in if start \<ge> 0 \<and> endp \<ge> 0
              then (case loads W (py_slice raw start (endp + 1)) of
                      Some data \<Rightarrow> (Inr data, s1)
                    | None \<Rightarrow> (Inl JSONDecodeError, s1))
              else (Inr (JObj []), s1)))"

definition ensure_response :: "nat \<Rightarrow> json \<Rightarrow> backend \<Rightarrow> (exn + json) \<times> backend" where
  \<comment> \<open>\<^verbatim>\<open>if not data or "response" not in data: ... data = {fallback}\<close>\<close>
  "ensure_response attempt data s =
     (if \<not> py_truthy data
      then (Inr fallback_reply, emit WARNING (InvalidLLMResponse attempt) s)
      else case py_contains ''response'' data of
             Inl e \<Rightarrow> (Inl e, s)
           | Inr False \<Rightarrow> (Inr fallback_reply, emit WARNING (InvalidLLMResponse attempt) s)
           | Inr True \<Rightarrow> (Inr data, s))"

text \<open>The rest of the \<^verbatim>\<open>try\<close> block: \<open>Some data\<close> is \<^verbatim>\<open>return data\<close>; \<open>None\<close> is the
  fall-through to the next iteration, with the configuration as mutated. The cap of the
  temperature is the same literal as \<^verbatim>\<open>top_p\<close>.\<close>

definition judge ::
  "'n env \<Rightarrow> 'n emotion_analysis \<Rightarrow> gen_config \<Rightarrow> nat \<Rightarrow> json \<Rightarrow> backend
     \<Rightarrow> (exn + json option \<times> gen_config) \<times> backend" where
  "judge W analysis cfg attempt data s =
     (case py_getitem data ''response'' of
        Inl e \<Rightarrow> (Inl e, s)
      | Inr r \<Rightarrow>
          (case validate_response W r (primary_emotion analysis) s of
             (True, s1) \<Rightarrow> (Inr (Some data, cfg), s1)
           | (False, s1) \<Rightarrow>
               (Inr (None, cfg\<lparr>temperature := min (9 / 10) (temperature cfg + 1 / 10)\<rparr>),
                emit WARNING (ValidationFailedOnAttempt attempt) s1)))"

definition try_body ::
  "'n env \<Rightarrow> 'n emotion_analysis \<Rightarrow> string \<Rightarrow> gen_config \<Rightarrow> nat \<Rightarrow> backend
     \<Rightarrow> (exn + json option \<times> gen_config) \<times> backend" where
  "try_body W analysis prompt cfg attempt s =
     (case call_llm W prompt cfg attempt s of
        (Inl e, s1) \<Rightarrow> (Inl e, s1)
      | (Inr raw, s1) \<Rightarrow>
          (case parse_json W (strip_fences raw) s1 of
             (Inl e, s2) \<Rightarrow> (Inl e, s2)
           | (Inr data, s2) \<Rightarrow>
               (case ensure_response attempt data s2 of
                  (Inl e, s3) \<Rightarrow> (Inl e, s3)
                | (Inr data', s3) \<Rightarrow> judge W analysis cfg attempt data' s3)))"

text \<open>The \<^verbatim>\<open>for attempt in range(1, max_attempts + 1)\<close> loop with its
  \<^verbatim>\<open>except Exception\<close> handler, and the statements after the loop.\<close>

fun attempts ::
  "'n env \<Rightarrow> 'n emotion_analysis \<Rightarrow> string \<Rightarrow> nat list \<Rightarrow> gen_config \<Rightarrow> backend
     \<Rightarrow> (exn + json) \<times> backend" where
  "attempts W analysis prompt [] cfg s =
     (Inr fallback_reply, emit WARNING MaxValidationAttemptsReached s)"
| "attempts W analysis prompt (attempt # rest) cfg s =
     (case try_body W analysis prompt cfg attempt s of
        (Inr (Some data, cfg'), s') \<Rightarrow> (Inr data, s')
      | (Inr (None, cfg'), s') \<Rightarrow> attempts W analysis prompt rest cfg' s'
      | (Inl e, s') \<Rightarrow>
          (let s'' = emit ERROR (LLMCallFailed attempt e) s' in
           if attempt = max_attempts then (Inl e, s'')
           else attempts W analysis prompt rest cfg s''))"

text \<open>The function as written, before its decorators are applied.\<close>

definition refine_and_respond_body ::
  "'n env \<Rightarrow> string \<Rightarrow> 'n emotion_analysis \<Rightarrow> string \<Rightarrow> backend \<Rightarrow> (exn + json) \<times> backend" where
  "refine_and_respond_body W text analysis user_id s =
     (let s0 = (if client_configured s then s else configure_genai s) in
      case get_conversation_context W user_id of
        Inl e \<Rightarrow> (Inl e, s0)
      | Inr context \<Rightarrow>
          attempts W analysis (create_dynamic_prompt W analysis text context)
            [1 ..< max_attempts + 1] initial_config s0)"

text \<open>
  Modelled from the spec: \<^verbatim>\<open>retry_async\<close> of \<^verbatim>\<open>utils.py\<close>, which is not among the sources.
  The spec describes a bounded retry with backoff up to a fixed ceiling whose exhaustion
  is fatal: the wrapped call is repeated while it raises, at most \<open>times\<close> calls in all,
  and the last exception is raised again. The waiting time between two calls is not
  represented. \<open>retry_async\<close> below takes the number of calls still allowed after the
  current one.
\<close>

primrec retry_async ::
  "nat \<Rightarrow> (backend \<Rightarrow> (exn + 'a) \<times> backend) \<Rightarrow> backend \<Rightarrow> (exn + 'a) \<times> backend" where
  "retry_async 0 f s = f s"
| "retry_async (Suc n) f s =
     (case f s of (Inl e, s') \<Rightarrow> retry_async n f s' | (Inr v, s') \<Rightarrow> (Inr v, s'))"

text \<open>\<^verbatim>\<open>@retry_async(times=4, delay_seconds=1.0, exceptions=(Exception,))\<close> over
  \<^verbatim>\<open>@Timer(...)\<close>; the timer only reports the elapsed time and is left out.\<close>

definition refine_and_respond ::
  "'n env \<Rightarrow> string \<Rightarrow> 'n emotion_analysis \<Rightarrow> string \<Rightarrow> backend \<Rightarrow> (exn + json) \<times> backend" where
  "refine_and_respond W text analysis user_id =
     retry_async (4 - 1) (refine_and_respond_body W text analysis user_id)"

definition canned_text :: string where
  "canned_text =
     ''Hey, I'' @ rsquo @ ''m Charlotte, your therapist. Thanks for sharing'' @ mdash @
     ''what'' @ rsquo @ ''s going on for you right now?''"

definition generate_emotional_response ::
  "'n env \<Rightarrow> string \<Rightarrow> 'n emotion_analysis \<Rightarrow> string \<Rightarrow> string \<Rightarrow> backend \<Rightarrow> json \<times> backend" where
  "generate_emotional_response W user_text emotions model_name user_id s =
     (case refine_and_respond W user_text emotions user_id s of
        (Inl e, s') \<Rightarrow> (JStr canned_text, emit ERROR (FailedToGenerate e) s')
      | (Inr result, s') \<Rightarrow>
          (case py_get result ''response'' (JStr canned_text) of
             Inl e \<Rightarrow> (JStr canned_text, emit ERROR (FailedToGenerate e) s')
           | Inr v \<Rightarrow> (v, s')))"

section \<open>A JSON decoder for running the generator on concrete texts\<close>

text \<open>
  The generator is stated for any \<open>loads\<close>. To run it on a given text, \<open>json_loads\<close>
  decodes the JSON grammar (objects, arrays, strings with the one-character escapes,
  integers, \<^verbatim>\<open>true\<close>, \<^verbatim>\<open>false\<close>, \<^verbatim>\<open>null\<close>) the way \<^verbatim>\<open>json.loads\<close> does: surrounding
  white space is skipped, anything after the value is an error, a repeated key keeps its
  place and takes the later value. Numbers with a fraction or an exponent and
  Unicode escapes are outside this decoder and are rejected by it. The first argument of
  \<open>parse_value\<close> bounds the depth of the recursion.
\<close>

definition json_ws :: "char \<Rightarrow> bool" where
  "json_ws c \<longleftrightarrow> c \<in> {CHR 0x20, CHR 0x09, CHR 0x0A, CHR 0x0D}"

definition unescape :: "char \<Rightarrow> char option" where
  "unescape e =
     (if e = CHR 0x22 \<or> e = CHR 0x5C \<or> e = CHR ''/'' then Some e
      else if e = CHR ''b'' then Some (CHR 0x08)
      else if e = CHR ''f'' then Some (CHR 0x0C)
      else if e = CHR ''n'' then Some (CHR 0x0A)
      else if e = CHR ''r'' then Some (CHR 0x0D)
      else if e = CHR ''t'' then Some (CHR 0x09)
      else None)"

fun scan_string :: "string \<Rightarrow> (string \<times> string) option" where
  "scan_string [] = None"
| "scan_string (c # cs) =
     (if c = CHR 0x22 then Some ([], cs)
      else if c = CHR 0x5C then
        (case cs of
           [] \<Rightarrow> None
         | e # cs' \<Rightarrow>
             (case unescape e of
                None \<Rightarrow> None
              | Some ch \<Rightarrow>
                  (case scan_string cs' of
                     None \<Rightarrow> None
                   | Some (str, r) \<Rightarrow> Some (ch # str, r))))
      else if (of_char c :: nat) < 0x20 then None
      else (case scan_string cs of None \<Rightarrow> None | Some (str, r) \<Rightarrow> Some (c # str, r)))"

definition is_digit :: "char \<Rightarrow> bool" where
  "is_digit c \<longleftrightarrow> (48::nat) \<le> of_char c \<and> (of_char c :: nat) \<le> 57"

definition digits_value :: "string \<Rightarrow> nat" where
  "digits_value ds = foldl (\<lambda>a c. 10 * a + (of_char c - 48)) 0 ds"

definition scan_int :: "string \<Rightarrow> (json \<times> string) option" where
  "scan_int s =
     (let neg = (s \<noteq> [] \<and> hd s = CHR ''-'');
          s1 = (if neg then tl s else s);
          ds = takeWhile is_digit s1;
          rest = dropWhile is_digit s1
      in if ds = [] \<or> (length ds > 1 \<and> hd ds = CHR ''0'') then None
         else if rest \<noteq> [] \<and> hd rest \<in> {CHR ''.'', CHR ''e'', CHR ''E''} then None
         else Some (JInt (if neg then - int (digits_value ds) else int (digits_value ds)), rest))"

fun dict_set :: "(string \<times> json) list \<Rightarrow> string \<Rightarrow> json \<Rightarrow> (string \<times> json) list" where
  "dict_set [] k v = [(k, v)]"
| "dict_set ((k', v') # kvs) k v =
     (if k' = k then (k, v) # kvs else (k', v') # dict_set kvs k v)"

fun parse_value :: "nat \<Rightarrow> string \<Rightarrow> (json \<times> string) option"
  and parse_elements :: "nat \<Rightarrow> string \<Rightarrow> json list \<Rightarrow> (json \<times> string) option"
  and parse_members :: "nat \<Rightarrow> string \<Rightarrow> (string \<times> json) list \<Rightarrow> (json \<times> string) option"
where
  "parse_value 0 s = None"
| "parse_value (Suc n) s =
     (case dropWhile json_ws s of
        [] \<Rightarrow> None
      | c # cs \<Rightarrow>
          if c = CHR ''{'' then
            (case dropWhile json_ws cs of
               [] \<Rightarrow> None
             | d # ds \<Rightarrow> if d = CHR ''}'' then Some (JObj [], ds) else parse_members n cs [])
          else if c = CHR ''['' then
            (case dropWhile json_ws cs of
               [] \<Rightarrow> None
             | d # ds \<Rightarrow> if d = CHR '']'' then Some (JArr [], ds) else parse_elements n cs [])
          else if c = CHR 0x22 then
            (case scan_string cs of None \<Rightarrow> None | Some (str, r) \<Rightarrow> Some (JStr str, r))
          else if startswith (c # cs) ''true'' then Some (JBool True, drop 4 (c # cs))
          else if startswith (c # cs) ''false'' then Some (JBool False, drop 5 (c # cs))
          else if startswith (c # cs) ''null'' then Some (JNull, drop 4 (c # cs))
          else scan_int (c # cs))"
| "parse_elements 0 s acc = None"
| "parse_elements (Suc n) s acc =
     (case parse_value n s of
        None \<Rightarrow> None
      | Some (v, r) \<Rightarrow>
          (case dropWhile json_ws r of
             [] \<Rightarrow> None
           | d # ds \<Rightarrow>
               if d = CHR '','' then parse_elements n ds (acc @ [v])
               else if d = CHR '']'' then Some (JArr (acc @ [v]), ds)
               else None))"
| "parse_members 0 s acc = None"
| "parse_members (Suc n) s acc =
     (case dropWhile json_ws s of
        [] \<Rightarrow> None
      | q # cs \<Rightarrow>
          if q \<noteq> CHR 0x22 then None
          else
            (case scan_string cs of
               None \<Rightarrow> None
             | Some (k, r1) \<Rightarrow>
                 (case dropWhile json_ws r1 of
                    [] \<Rightarrow> None
                  | c # r2 \<Rightarrow>
                      if c \<noteq> CHR '':'' then None
                      else
                        (case parse_value n r2 of
                           None \<Rightarrow> None
                         | Some (v, r3) \<Rightarrow>
                             (case dropWhile json_ws r3 of
                                [] \<Rightarrow> None
                              | d # r4 \<Rightarrow>
                                  if d = CHR '','' then parse_members n r4 (dict_set acc k v)
                                  else if d = CHR ''}'' then Some (JObj (dict_set acc k v), r4)
                                  else None)))))"

definition json_loads :: "string \<Rightarrow> json option" where
  "json_loads s =
     (case parse_value (Suc (Suc (length s + length s))) s of
        None \<Rightarrow> None
      | Some (v, r) \<Rightarrow> if dropWhile json_ws r = [] then Some v else None)"

section \<open>Chat interface\<close>

text \<open>
  \<^verbatim>\<open>handleSubmit\<close> of the \<^verbatim>\<open>ChatInterface\<close> component. A JavaScript string is a sequence of
  UTF-16 code units; \<^verbatim>\<open>String.prototype.trim\<close> removes the code units that are white space
  or line terminators from both ends.
\<close>

type_synonym jsstring = "16 word list"

definition js :: "string \<Rightarrow> jsstring" where
  \<comment> \<open>an ASCII literal as code units\<close>
  "js s = map (\<lambda>c. of_nat (of_char c)) s"

definition js_whitespace :: "16 word \<Rightarrow> bool" where
  "js_whitespace c \<longleftrightarrow>
     c \<in> {0x0009, 0x000A, 0x000B, 0x000C, 0x000D, 0x0020, 0x00A0, 0x1680,
          0x2028, 0x2029, 0x202F, 0x205F, 0x3000, 0xFEFF} \<or> (0x2000 \<le> c \<and> c \<le> 0x200A)"

definition trim :: "jsstring \<Rightarrow> jsstring" where
  "trim s = rev (dropWhile js_whitespace (rev (dropWhile js_whitespace s)))"

function number_to_string :: "nat \<Rightarrow> string" where
  "number_to_string n =
     (if n < 10 then [''0123456789'' ! n]
      else number_to_string (n div 10) @ [''0123456789'' ! (n mod 10)])"
  by pat_completeness auto
termination
  by (relation "measure id") auto

declare number_to_string.simps [simp del]

datatype sender = User | Ai | System

text \<open>The emotion analysis of a response is passed through unread, except for the test
  \<^verbatim>\<open>distribution?.root\<close>.\<close>

record 'a emotion_payload =
  has_distribution_root :: bool
  payload :: 'a

record 'a message =
  message_id :: jsstring
  sender :: sender
  message_text :: jsstring
  timestamp :: nat
  emotionAnalysis :: "'a emotion_payload option"

text \<open>The parsed body of a response; \<open>None\<close> is a field that is absent, \<^verbatim>\<open>null\<close> or
  \<^verbatim>\<open>undefined\<close>.\<close>

record 'a response_body =
  detail :: "jsstring option"
  ai_response :: "jsstring option"
  user_emotion_analysis :: "'a emotion_payload option"
  response_id :: "jsstring option"

text \<open>What \<^verbatim>\<open>await fetch(...)\<close> followed by \<^verbatim>\<open>await response.json()\<close> gives: an exception
  with its \<^verbatim>\<open>message\<close>, or \<^verbatim>\<open>response.ok\<close>, \<^verbatim>\<open>response.status\<close> and the parsed body.\<close>

datatype 'a fetch_outcome = Threw jsstring | Responded bool nat "'a response_body"

record chat_request =
  request_method :: string
  request_path :: string
  request_message :: jsstring

text \<open>The successive readings of \<^verbatim>\<open>Date.now()\<close>.\<close>

record clock =
  now_user_id :: nat
  now_user_timestamp :: nat
  now_reply_id :: nat
  now_reply_timestamp :: nat

record 'a chat_state =
  messages :: "'a message list"
  inputValue :: jsstring
  isLoading :: bool
  error :: "jsstring option"

definition or_else :: "jsstring option \<Rightarrow> jsstring \<Rightarrow> jsstring" where
  \<comment> \<open>\<^verbatim>\<open>v || d\<close> for an optional string \<^verbatim>\<open>v\<close>: the empty string is falsy as well\<close>
  "or_else v d = (case v of None \<Rightarrow> d | Some s \<Rightarrow> if s \<noteq> [] then s else d)"

definition catch_error :: "clock \<Rightarrow> jsstring \<Rightarrow> 'a chat_state \<Rightarrow> 'a chat_state" where
  \<comment> \<open>the \<^verbatim>\<open>catch (err)\<close> block, for an \<^verbatim>\<open>err.message\<close>\<close>
  "catch_error clk err_message s =
     (let errorMessage = (if err_message \<noteq> [] then err_message
                          else js ''Failed to connect to the AI service.'');
          systemErrorMessage =
            \<lparr>message_id = js (''error-'' @ number_to_string (now_reply_id clk)),
             sender = System,
             message_text = js ''Error: '' @ errorMessage,
             timestamp = now_reply_timestamp clk,
             emotionAnalysis = None\<rparr>
      in s\<lparr>error := Some errorMessage, messages := messages s @ [systemErrorMessage]\<rparr>)"

text \<open>
  One call of \<^verbatim>\<open>handleSubmit\<close>, from the state the component rendered with to the state
  after the \<^verbatim>\<open>finally\<close> block, together with the requests issued. The request is the
  \<^verbatim>\<open>POST\<close> to \<^verbatim>\<open>${API_URL}/chat\<close> whose body is \<^verbatim>\<open>{ message: text }\<close>. Console output,
  \<^verbatim>\<open>preventDefault\<close> and the focus of the input field are not part of the state.
\<close>

definition handleSubmit ::
  "clock \<Rightarrow> (chat_request \<Rightarrow> 'a fetch_outcome) \<Rightarrow> 'a chat_state
     \<Rightarrow> 'a chat_state \<times> chat_request list" where
  "handleSubmit clk fetch s =
     (let text = trim (inputValue s) in
      if text = [] \<or> isLoading s then (s, [])
      else
        (let userMessage =
               \<lparr>message_id = js (''user-'' @ number_to_string (now_user_id clk)),
                sender = User,
                message_text = text,
                timestamp = now_user_timestamp clk,
                emotionAnalysis = None\<rparr>;
             s1 = s\<lparr>messages := messages s @ [userMessage], inputValue := [],
                    isLoading := True, error := None\<rparr>;
             request = \<lparr>request_method = ''POST'', request_path = ''/chat'',
                        request_message = text\<rparr>;
             incomplete =
               catch_error clk
                 (js ''Received incomplete or malformed data structure from backend.'') s1;
             s2 = (case fetch request of
                     Threw m \<Rightarrow> catch_error clk m s1
                   | Responded ok status responseBody \<Rightarrow>
                       if \<not> ok then
                         catch_error clk
                           (or_else (detail responseBody)
                              (js (''Request failed with status '' @ number_to_string status)))
                           s1
                       else
                         (case (ai_response responseBody, user_emotion_analysis responseBody) of
                            (Some reply, Some analysis) \<Rightarrow>
                              if reply \<noteq> [] \<and> has_distribution_root analysis then
                                (let aiMessage =
                                       \<lparr>message_id =
                                          or_else (response_id responseBody)
                                            (js (''ai-'' @ number_to_string (now_reply_id clk))),
                                        sender = Ai,
                                        message_text = reply,
                                        timestamp = now_reply_timestamp clk,
                                        emotionAnalysis = Some analysis\<rparr>
                                 in s1\<lparr>messages := messages s1 @ [aiMessage]\<rparr>)
                              else incomplete
                          | _ \<Rightarrow> incomplete))
         in (s2\<lparr>isLoading := False\<rparr>, [request])))"

section \<open>Concrete environments\<close>

text \<open>Inputs on which the theorems below are run. \<open>sample_env api classifier\<close> decodes
  with \<open>json_loads\<close>, has an empty conversation context and renders integers.\<close>

definition sample_env ::
  "(nat \<Rightarrow> exn + string option) \<Rightarrow> (json \<Rightarrow> exn + nat emotion_analysis) \<Rightarrow> nat env" where
  "sample_env api classifier =
     \<lparr>loads = json_loads,
      get_conversation_context = (\<lambda>user_id. Inr []),
      generate_content = (\<lambda>k prompt cfg. api k),
      analyze_emotions = (\<lambda>k response. classifier response),
      format_value = number_to_string,
      format_2f = (\<lambda>n. number_to_string n @ ''.00'')\<rparr>"

definition fresh :: backend where
  "fresh = \<lparr>client_configured = False, api_calls = 0, analyze_calls = 0, logged = []\<rparr>"

definition sad_user :: "nat emotion_analysis" where
  "sad_user = \<lparr>primary_emotion = ''sad'', intensity = 8, secondary_emotions = [(''fearful'', 1)]\<rparr>"

definition happy_reading :: "nat emotion_analysis" where
  "happy_reading = \<lparr>primary_emotion = ''happy'', intensity = 6, secondary_emotions = []\<rparr>"

definition happy_env :: "nat env" where
  "happy_env = sample_env (\<lambda>k. Inl (Raised ''unused'')) (\<lambda>response. Inr happy_reading)"

definition classifier_down_env :: "nat env" where
  "classifier_down_env =
     sample_env (\<lambda>k. Inl (Raised ''unused'')) (\<lambda>response. Inl (Raised ''model unavailable''))"

definition garbled_env :: "nat env" where
  \<open>garbled_env = sample_env (\<lambda>k. Inr (Some ''{not json}'')) (\<lambda>response. Inr happy_reading)\<close>

definition no_response_env :: "nat env" where
  \<open>no_response_env =
     sample_env (\<lambda>k. Inr (Some ''{"appraisal":"Threat"}'')) (\<lambda>response. Inr happy_reading)\<close>

definition numbered_reply :: "nat \<Rightarrow> exn + string option" where
  \<open>numbered_reply k =
     Inr (Some (if k = 0 then ''{"response":"first"}''
                else if k = 1 then ''{"response":"second"}''
                else ''{"response":"third"}''))\<close>

definition mismatch_env :: "nat env" where
  "mismatch_env = sample_env numbered_reply (\<lambda>response. Inr happy_reading)"

definition sad_reading :: "nat emotion_analysis" where
  "sad_reading = \<lparr>primary_emotion = ''sad'', intensity = 5, secondary_emotions = []\<rparr>"

definition second_try_env :: "nat env" where
  "second_try_env =
     sample_env numbered_reply
       (\<lambda>response. Inr (if response = JStr ''second'' then sad_reading else happy_reading))"


definition sample_clock :: clock where
  "sample_clock = \<lparr>now_user_id = 1700000000000, now_user_timestamp = 1700000000000,
                    now_reply_id = 1700000000450, now_reply_timestamp = 1700000000450\<rparr>"

definition backend_down :: "chat_request \<Rightarrow> unit fetch_outcome" where
  "backend_down request = Threw (js ''Failed to fetch'')"

definition blank_input :: "unit chat_state" where
  "blank_input = \<lparr>messages = [], inputValue = js ''   '', isLoading = False, error = None\<rparr>"

definition busy_input :: "unit chat_state" where
  "busy_input = \<lparr>messages = [], inputValue = js ''hello'', isLoading = True, error = None\<rparr>"

definition typed_input :: "unit chat_state" where
  "typed_input = \<lparr>messages = [], inputValue = js '' hi '', isLoading = False, error = None\<rparr>"

section \<open>Prompt builder: what the prompt contains\<close>

lemma sublist_skip: "sublist xs ys \<Longrightarrow> sublist xs (zs @ ys)"
proof -
  assume "sublist xs ys"
  then obtain ps ss where "ys = ps @ xs @ ss"
    by (auto simp: sublist_def)
  then have "zs @ ys = (zs @ ps) @ xs @ ss"
    by simp
  then show ?thesis
    unfolding sublist_def by blast
qed

text \<open>
  Claim C5. \<open>create_dynamic_prompt\<close> is a function of the analysis, the message and the
  context alone (and of how numbers are rendered). For every input the prompt contains the
  message text as it is, and for an empty context it contains the sentence
  \<^verbatim>\<open>No prior conversation.\<close>
\<close>

theorem create_dynamic_prompt_contains:
  "sublist user_text (create_dynamic_prompt W emotions user_text context) \<and>
   (context = [] \<longrightarrow>
      sublist ''No prior conversation.'' (create_dynamic_prompt W emotions user_text context))"
proof
  show "sublist user_text (create_dynamic_prompt W emotions user_text context)"
    unfolding create_dynamic_prompt_def Let_def
    by (intro sublist_skip sublist_append_rightI)
  show "context = [] \<longrightarrow>
      sublist ''No prior conversation.'' (create_dynamic_prompt W emotions user_text context)"
  proof
    assume "context = []"
    then have "(if context \<noteq> [] then join '' '' (py_slice_from context (- 3))
                else ''No prior conversation.'') = ''No prior conversation.''"
      by simp
    then show "sublist ''No prior conversation.'' (create_dynamic_prompt W emotions user_text context)"
      unfolding create_dynamic_prompt_def Let_def
      by (simp only:) (intro sublist_skip sublist_append_rightI)
  qed
qed

text \<open>The same at a message with no earlier conversation.\<close>

theorem create_dynamic_prompt_contains_witness:
  "sublist ''I failed my exam'' (create_dynamic_prompt happy_env sad_user ''I failed my exam'' []) \<and>
   sublist ''No prior conversation.''
     (create_dynamic_prompt happy_env sad_user ''I failed my exam'' [])"
  using create_dynamic_prompt_contains [of "''I failed my exam''" happy_env sad_user "[]"]
  by (simp only: simp_thms)

text \<open>The prompt for a sad user at intensity 8 with four earlier turns: the last three
  turns are kept.\<close>

lemma create_dynamic_prompt_example:
  \<open>create_dynamic_prompt happy_env sad_user ''I failed my exam'' [''a'', ''b'', ''c'', ''d''] =
     prompt_role @
     ''sad (intensity: 8/10). Secondary emotions: fearful (1.00).\<newline>'' @
     ''**Context:** b c d\<newline>'' @
     ''**Current Message:** I failed my exam'' @ prompt_instructions\<close>
  by (simp add: create_dynamic_prompt_def happy_env_def sample_env_def sad_user_def
      py_slice_from_def slice_bound_def number_to_string.simps)

section \<open>Response validator\<close>

text \<open>
  Claim C3. When the classifier returns an analysis of the response, validation passes
  exactly if the expected emotion is \<^verbatim>\<open>neutral\<close> and the response's primary emotion is one of
  \<^verbatim>\<open>neutral\<close>, \<^verbatim>\<open>happy\<close>, \<^verbatim>\<open>surprised\<close>, \<^verbatim>\<open>curious\<close>, or the response's primary emotion
  equals the expected one; in every other case it fails.
\<close>

theorem validate_response_policy:
  assumes "analyze_emotions W (analyze_calls s) response = Inr a"
  shows "fst (validate_response W response expected s) \<longleftrightarrow>
           (expected = ''neutral'' \<and>
            primary_emotion a \<in> {''neutral'', ''happy'', ''surprised'', ''curious''}) \<or>
           primary_emotion a = expected"
  using assms by (simp add: validate_response_def Let_def)

text \<open>A response read as \<^verbatim>\<open>happy\<close> passes for the expected emotions \<^verbatim>\<open>neutral\<close> and
  \<^verbatim>\<open>happy\<close> and fails for \<^verbatim>\<open>angry\<close>.\<close>

theorem validate_response_policy_witness:
  "analyze_emotions happy_env (analyze_calls fresh) (JStr ''Wonderful news!'') = Inr happy_reading \<and>
   fst (validate_response happy_env (JStr ''Wonderful news!'') ''neutral'' fresh) \<and>
   fst (validate_response happy_env (JStr ''Wonderful news!'') ''happy'' fresh) \<and>
   \<not> fst (validate_response happy_env (JStr ''Wonderful news!'') ''angry'' fresh)"
proof -
  have h: "analyze_emotions happy_env (analyze_calls fresh) (JStr ''Wonderful news!'') = Inr happy_reading"
    by (simp add: happy_env_def sample_env_def)
  show ?thesis
    using h validate_response_policy [OF h, where expected = "''neutral''"]
      validate_response_policy [OF h, where expected = "''happy''"]
      validate_response_policy [OF h, where expected = "''angry''"]
    by (simp add: happy_reading_def)
qed

text \<open>
  Claim C9 says that the validator answers failure when its classification raises. With a
  classifier that raises, \<open>validate_response\<close> answers \<open>True\<close>.
\<close>

theorem validate_response_error_counterexample:
  "analyze_emotions classifier_down_env (analyze_calls fresh) (JStr ''hello'') =
     Inl (Raised ''model unavailable'') \<and>
   fst (validate_response classifier_down_env (JStr ''hello'') ''sad'' fresh) \<noteq> False"
  by (simp add: validate_response_def classifier_down_env_def sample_env_def Let_def)

text \<open>
  Claim C9, amended. When the classification raises \<open>e\<close>, the validator logs \<open>e\<close> at level
  ERROR and returns \<open>True\<close>; no exception leaves it, and the generator's attempt returns
  the reply it was validating, without another attempt.
\<close>

theorem validate_response_error_accepts:
  assumes "analyze_emotions W (analyze_calls s) response = Inl e"
  shows "validate_response W response expected s =
           (True, emit ERROR (ResponseValidationFailed e) (s\<lparr>analyze_calls := Suc (analyze_calls s)\<rparr>)) \<and>
         (py_getitem data ''response'' = Inr response \<longrightarrow>
          fst (judge W analysis cfg attempt data s) = Inr (Some data, cfg))"
  using assms by (simp add: validate_response_def judge_def Let_def)

text \<open>The amended claim on a reply whose classification raises.\<close>

theorem validate_response_error_accepts_witness:
  "analyze_emotions classifier_down_env (analyze_calls fresh) (JStr ''hello'') =
     Inl (Raised ''model unavailable'') \<and>
   validate_response classifier_down_env (JStr ''hello'') ''sad'' fresh =
     (True, \<lparr>client_configured = False, api_calls = 0, analyze_calls = 1,
             logged = [(ERROR, ResponseValidationFailed (Raised ''model unavailable''))]\<rparr>) \<and>
   fst (judge classifier_down_env sad_user initial_config 1
          (JObj [(''response'', JStr ''hello'')]) fresh) =
     Inr (Some (JObj [(''response'', JStr ''hello'')]), initial_config)"
proof -
  have h: "analyze_emotions classifier_down_env (analyze_calls fresh) (JStr ''hello'') =
             Inl (Raised ''model unavailable'')"
    by (simp add: classifier_down_env_def sample_env_def)
  have g: "py_getitem (JObj [(''response'', JStr ''hello'')]) ''response'' = Inr (JStr ''hello'')"
    by simp
  show ?thesis
    using h g validate_response_error_accepts [OF h, where expected = "''sad''"
        and data = "JObj [(''response'', JStr ''hello'')]" and analysis = sad_user
        and cfg = initial_config and attempt = 1]
    by (simp add: fresh_def emit_def)
qed

section \<open>Response generator: fences, parsing and the fallback reply\<close>

lemmas json_loads_simps =
  json_loads_def json_ws_def startswith_def scan_int_def is_digit_def unescape_def

lemma upto_max_attempts: "[1 ..< max_attempts + 1] = [1, 2, 3]"
  by (simp add: max_attempts_def upt_rec)

lemmas run_generator =
  refine_and_respond_body_def try_body_def call_llm_def strip_fences_def parse_json_def
  ensure_response_def judge_def validate_response_def configure_genai_def emit_def Let_def
  strip_def lstrip_def rstrip_def py_isspace_def endswith_def
  py_find_def py_rfind_def py_slice_def slice_bound_def sample_env_def json_loads_simps


lemma rstrip_pad: "\<forall>c\<in>set b. py_isspace c \<Longrightarrow> rstrip (y @ b) = rstrip y"
  by (simp add: rstrip_def dropWhile_append)

lemma lstrip_pad: "\<forall>c\<in>set a. py_isspace c \<Longrightarrow> lstrip (a @ x) = lstrip x"
  by (simp add: lstrip_def)

lemma strip_pad:
  assumes a: "\<forall>c\<in>set a. py_isspace c" and b: "\<forall>c\<in>set b. py_isspace c"
  shows "strip (a @ x @ b) = strip x"
proof (cases "\<forall>c\<in>set x. py_isspace c")
  case True
  with b have "\<forall>c\<in>set (x @ b). py_isspace c"
    by auto
  then have "lstrip (x @ b) = []"
    unfolding lstrip_def by (simp only: dropWhile_eq_Nil_conv)
  moreover from True have "lstrip x = []"
    unfolding lstrip_def by (simp only: dropWhile_eq_Nil_conv)
  ultimately show ?thesis
    using a by (simp add: strip_def lstrip_pad)
next
  case False
  then obtain c where "c \<in> set x" "\<not> py_isspace c"
    by blast
  then have "lstrip (x @ b) = lstrip x @ b"
    unfolding lstrip_def by (rule dropWhile_append1)
  then show ?thesis
    using a b by (simp add: strip_def lstrip_pad rstrip_pad)
qed

lemma rstrip_keep: "xs \<noteq> [] \<Longrightarrow> \<not> py_isspace (last xs) \<Longrightarrow> rstrip xs = xs"
proof -
  assume "xs \<noteq> []" and l: "\<not> py_isspace (last xs)"
  then obtain ys a where xs: "xs = ys @ [a]"
    by (cases xs rule: rev_cases) auto
  with l have "\<not> py_isspace a"
    by simp
  then show ?thesis
    by (simp add: rstrip_def xs)
qed

lemma strip_keep:
  assumes "xs \<noteq> []" "\<not> py_isspace (hd xs)" "\<not> py_isspace (last xs)"
  shows "strip xs = xs"
proof -
  from assms(2) have "dropWhile py_isspace xs = xs"
    by (simp add: dropWhile_eq_self_iff)
  with assms(1,3) show ?thesis
    by (simp add: strip_def lstrip_def rstrip_keep)
qed

lemma py_slice_inner:
  assumes "q \<noteq> []"
  shows "py_slice (p @ m @ q) (int (length p)) (- int (length q)) = m"
proof -
  let ?n = "length (p @ m @ q)"
  from assms have "0 < length q"
    by simp
  then have "slice_bound ?n (- int (length q)) = length p + length m"
    by (simp add: slice_bound_def)
  moreover have "slice_bound ?n (int (length p)) = length p"
    by (simp add: slice_bound_def)
  ultimately show ?thesis
    by (simp add: py_slice_def)
qed

lemma hd_rstrip: "y \<noteq> [] \<Longrightarrow> \<not> py_isspace (hd y) \<Longrightarrow> rstrip y \<noteq> [] \<and> hd (rstrip y) = hd y"
proof -
  assume "y \<noteq> []" and h: "\<not> py_isspace (hd y)"
  then obtain a ys where y: "y = a # ys"
    by (cases y) auto
  with h have a: "\<not> py_isspace a"
    by simp
  have "dropWhile py_isspace (rev ys @ [a]) = dropWhile py_isspace (rev ys) @ [a]"
    using a by (simp add: dropWhile_append3)
  then have "rstrip y = a # rev (dropWhile py_isspace (rev ys))"
    by (simp add: rstrip_def y)
  then show ?thesis
    by (simp add: y)
qed

lemma hd_strip:
  assumes "strip j \<noteq> []"
  shows "lstrip j \<noteq> [] \<and> hd (lstrip j) = hd (strip j) \<and> \<not> py_isspace (hd (strip j))"
proof -
  from assms have ne: "lstrip j \<noteq> []"
    by (auto simp: strip_def rstrip_def)
  then have ns: "\<not> py_isspace (hd (lstrip j))"
    unfolding lstrip_def by (rule hd_dropWhile)
  from hd_rstrip [OF ne ns] have "hd (strip j) = hd (lstrip j)"
    by (simp add: strip_def)
  with ne ns show ?thesis
    by simp
qed

lemma strip_fences_object:
  assumes "strip j \<noteq> []" "hd (strip j) = CHR ''{''"
  shows "strip_fences (strip j) = strip j"
proof -
  from assms obtain t where t: "strip j = CHR ''{'' # t"
    by (cases "strip j") auto
  show ?thesis
    by (simp add: strip_fences_def startswith_def t)
qed

lemma space_or_brace:
  assumes "strip j \<noteq> []" "hd (strip j) = CHR ''{''" "\<forall>c\<in>set a. py_isspace c"
  shows "a @ j @ r \<noteq> [] \<and> (py_isspace (hd (a @ j @ r)) \<or> hd (a @ j @ r) = CHR ''{'')"
proof -
  from hd_strip [OF assms(1)] assms(2)
  have ne: "lstrip j \<noteq> []" and hd: "hd (lstrip j) = CHR ''{''"
    by simp_all
  from ne have j: "j \<noteq> []"
    by (auto simp: lstrip_def)
  show ?thesis
  proof (cases a)
    case (Cons x xs)
    with assms(3) show ?thesis by simp
  next
    case Nil
    from j obtain x xs where jx: "j = x # xs"
      by (cases j) auto
    show ?thesis
    proof (cases "py_isspace x")
      case True
      then show ?thesis by (simp add: Nil jx)
    next
      case False
      then have "lstrip j = j"
        by (simp add: lstrip_def jx)
      with hd show ?thesis
        by (simp add: Nil jx)
    qed
  qed
qed

lemma fence_json:
  assumes a: "\<forall>c\<in>set a. py_isspace c" and b: "\<forall>c\<in>set b. py_isspace c"
  shows "strip_fences (strip (''```json'' @ a @ j @ b @ ''```'')) = strip j"
proof -
  let ?w = "''```json'' @ a @ j @ b @ ''```''"
  have w: "?w = (''```json'' @ a @ j @ b) @ ''```''"
    by simp
  have "strip ?w = ?w"
    by (rule strip_keep) (simp_all add: py_isspace_def)
  moreover have "startswith ?w ''```json''"
    by (simp add: startswith_def)
  moreover have "endswith ?w ''```''"
    unfolding w endswith_def by simp
  moreover have "py_slice ?w 7 (- 3) = a @ j @ b"
    using py_slice_inner [of "''```''" "''```json''" "a @ j @ b"] by simp
  ultimately show ?thesis
    using a b by (simp add: strip_fences_def strip_pad)
qed

lemma fence_plain:
  assumes a: "\<forall>c\<in>set a. py_isspace c" and b: "\<forall>c\<in>set b. py_isspace c"
    and j: "strip j \<noteq> []" "hd (strip j) = CHR ''{''"
  shows "strip_fences (strip (''```'' @ a @ j @ b @ ''```'')) = strip j"
proof -
  let ?w = "''```'' @ a @ j @ b @ ''```''"
  let ?t = "a @ j @ b @ ''```''"
  have w: "?w = (''```'' @ a @ j @ b) @ ''```''"
    by simp
  from space_or_brace [OF j a, of "b @ ''```''"]
  obtain x xs where t: "?t = x # xs" and x: "py_isspace x \<or> x = CHR ''{''"
    by (cases ?t) auto
  from x have "x \<noteq> CHR ''j''"
    by (auto simp: py_isspace_def)
  then have "\<not> startswith ?w ''```json''"
    by (simp add: startswith_def t)
  moreover have "strip ?w = ?w"
    by (rule strip_keep) (simp_all add: py_isspace_def)
  moreover have "startswith ?w ''```''"
    by (simp add: startswith_def)
  moreover have "endswith ?w ''```''"
    unfolding w endswith_def by simp
  moreover have "py_slice ?w 3 (- 3) = a @ j @ b"
    using py_slice_inner [of "''```''" "''```''" "a @ j @ b"] by simp
  ultimately show ?thesis
    using a b by (simp add: strip_fences_def strip_pad)
qed

text \<open>
  Claim C6. Let \<open>j\<close> be a JSON object text: its first character after leading white space
  is an opening brace. Wrapped in code fences, with or without the \<^verbatim>\<open>json\<close> tag and with
  any white space \<open>a\<close>, \<open>b\<close> between the fences and the text, it reaches the decoder as
  the same string as \<open>j\<close> alone, so the parse stage gives the same result and the same
  log.
\<close>

theorem fenced_reply_parses_as_unfenced:
  assumes "\<forall>c\<in>set a. py_isspace c" and "\<forall>c\<in>set b. py_isspace c"
    and "strip j \<noteq> []" and "hd (strip j) = CHR ''{''"
  shows "parse_json W (strip_fences (strip (''```json'' @ a @ j @ b @ ''```''))) s =
           parse_json W (strip_fences (strip j)) s \<and>
         parse_json W (strip_fences (strip (''```'' @ a @ j @ b @ ''```''))) s =
           parse_json W (strip_fences (strip j)) s"
  using fence_json [OF assms(1,2)] fence_plain [OF assms] strip_fences_object [OF assms(3,4)]
  by simp

text \<open>A fenced reply, the fence on lines of its own.\<close>

theorem fenced_reply_parses_as_unfenced_witness:
  \<open>py_isspace (CHR 0x0A) \<and>
   hd (strip ''{"response":"hi"}'') = CHR ''{'' \<and>
   parse_json happy_env
     (strip_fences (strip (''```json'' @ ''\<newline>'' @ ''{"response":"hi"}'' @ ''\<newline>'' @ ''```'')))
     fresh = (Inr (JObj [(''response'', JStr ''hi'')]), fresh) \<and>
   parse_json happy_env
     (strip_fences (strip (''```'' @ ''\<newline>'' @ ''{"response":"hi"}'' @ ''\<newline>'' @ ''```'')))
     fresh = (Inr (JObj [(''response'', JStr ''hi'')]), fresh)\<close>
proof -
  let ?j = \<open>''{"response":"hi"}''\<close>
  have sp: "\<forall>c\<in>set ''\<newline>''. py_isspace c"
    by (simp add: py_isspace_def)
  have j: "strip ?j \<noteq> []" "hd (strip ?j) = CHR ''{''"
    by (simp_all add: strip_def lstrip_def rstrip_def py_isspace_def)
  have u: "parse_json happy_env (strip_fences (strip ?j)) fresh =
             (Inr (JObj [(''response'', JStr ''hi'')]), fresh)"
    by (simp add: run_generator happy_env_def)
  show ?thesis
    using sp j u fenced_reply_parses_as_unfenced [OF sp sp j, of happy_env fresh]
    by simp
qed

lemma takeWhile_shorter: "c \<in> set xs \<Longrightarrow> length (takeWhile (\<lambda>x. x \<noteq> c) xs) < length xs"
  by (induction xs) auto

lemma parse_json_strict:
  "loads W raw = Some data \<Longrightarrow> parse_json W raw s = (Inr data, s)"
  by (simp add: parse_json_def)

lemma parse_json_salvage:
  assumes "loads W raw = None" "CHR ''{'' \<in> set raw" "CHR ''}'' \<in> set raw"
  shows "parse_json W raw s =
           (case loads W (py_slice raw (py_find raw CHR ''{'') (py_rfind raw CHR ''}'' + 1)) of
              Some data \<Rightarrow> (Inr data, emit WARNING JSONParsingFailed s)
            | None \<Rightarrow> (Inl JSONDecodeError, emit WARNING JSONParsingFailed s))"
proof -
  have "length (takeWhile (\<lambda>x. x \<noteq> CHR ''}'') (rev raw)) < length raw"
    using assms(3) takeWhile_shorter [of "CHR ''}''" "rev raw"] by simp
  then have "0 \<le> py_rfind raw CHR ''}''"
    using assms(3) by (simp add: py_rfind_def)
  moreover have "0 \<le> py_find raw CHR ''{''"
    using assms(2) by (simp add: py_find_def)
  ultimately show ?thesis
    using assms(1) by (simp add: parse_json_def Let_def)
qed

lemma parse_json_no_braces:
  assumes "loads W raw = None" "CHR ''{'' \<notin> set raw \<or> CHR ''}'' \<notin> set raw"
  shows "parse_json W raw s = (Inr (JObj []), emit WARNING JSONParsingFailed s)"
  using assms by (auto simp: parse_json_def Let_def py_find_def py_rfind_def)

text \<open>The example of the specification: the braces are cut out and decoded.\<close>

lemma salvage_example:
  \<open>parse_json happy_env ''noise {"response":"hi"} trailing'' s =
     (Inr (JObj [(''response'', JStr ''hi'')]), emit WARNING JSONParsingFailed s)\<close>
  by (simp add: parse_json_def happy_env_def sample_env_def json_loads_simps Let_def
      py_find_def py_rfind_def py_slice_def slice_bound_def)

text \<open>
  Claim C7 says that a salvage parse that fails as well leaves an empty object. For the
  raw text \<^verbatim>\<open>{not json}\<close> the strict parse fails, both braces are found, the text between them
  is \<^verbatim>\<open>{not json}\<close> again, and the second \<^verbatim>\<open>json.loads\<close> raises inside the handler: the parse
  stage ends in \<^verbatim>\<open>JSONDecodeError\<close>, no empty object and no fallback reply are produced, and
  when every attempt receives this text the generator raises the error to its caller.
\<close>

theorem salvage_of_unparsable_braces_raises:
  \<open>loads garbled_env ''{not json}'' = None \<and>
   py_slice ''{not json}'' (py_find ''{not json}'' CHR ''{'') (py_rfind ''{not json}'' CHR ''}'' + 1) = ''{not json}'' \<and>
   parse_json garbled_env ''{not json}'' fresh =
     (Inl JSONDecodeError, emit WARNING JSONParsingFailed fresh) \<and>
   fst (refine_and_respond_body garbled_env ''hello'' sad_user ''u1'' fresh) = Inl JSONDecodeError\<close>
  unfolding refine_and_respond_body_def upto_max_attempts
  by (simp add: run_generator garbled_env_def fresh_def max_attempts_def)


lemma judge_fallback_never_raises:
  "fst (judge W analysis cfg attempt fallback_reply s) \<in>
     {Inr (Some fallback_reply, cfg),
      Inr (None, cfg\<lparr>temperature := min (9 / 10) (temperature cfg + 1 / 10)\<rparr>)}"
proof -
  have g: "py_getitem fallback_reply ''response'' = Inr (JStr fallback_text)"
    by (simp add: fallback_reply_def)
  obtain ok s1 where v: "validate_response W (JStr fallback_text) (primary_emotion analysis) s = (ok, s1)"
    by (cases "validate_response W (JStr fallback_text) (primary_emotion analysis) s")
  show ?thesis
    by (cases ok) (simp_all add: judge_def g v)
qed

text \<open>
  Claim C8. When the parsed object of an attempt has no key \<^verbatim>\<open>response\<close> (the empty object
  of a salvage pass that found no braces included), the attempt logs a warning and goes on
  with the fixed reply: appraisal \<^verbatim>\<open>Challenge\<close>, no regulation, the greeting as response.
  The attempt then ends by returning that reply or by falling through to the next
  iteration; it does not raise.
\<close>

theorem missing_response_substitutes_fallback:
  assumes "call_llm W prompt cfg attempt s = (Inr raw, s1)"
    and "parse_json W (strip_fences raw) s1 = (Inr (JObj kvs), s2)"
    and "''response'' \<notin> fst ` set kvs"
  shows "ensure_response attempt (JObj kvs) s2 =
           (Inr fallback_reply, emit WARNING (InvalidLLMResponse attempt) s2) \<and>
         fallback_reply =
           JObj [(''appraisal'', JStr ''Challenge''), (''regulation'', JArr []),
                 (''response'', JStr fallback_text)] \<and>
         fst (try_body W analysis prompt cfg attempt s) \<in>
           {Inr (Some fallback_reply, cfg),
            Inr (None, cfg\<lparr>temperature := min (9 / 10) (temperature cfg + 1 / 10)\<rparr>)}"
proof -
  have e: "ensure_response attempt (JObj kvs) s2 =
             (Inr fallback_reply, emit WARNING (InvalidLLMResponse attempt) s2)"
    using assms(3) by (simp add: ensure_response_def)
  have "try_body W analysis prompt cfg attempt s =
          judge W analysis cfg attempt fallback_reply (emit WARNING (InvalidLLMResponse attempt) s2)"
    by (simp add: try_body_def assms(1,2) e)
  with e judge_fallback_never_raises show ?thesis
    by (simp add: fallback_reply_def)
qed

text \<open>A reply that carries an appraisal only.\<close>

theorem missing_response_substitutes_fallback_witness:
  \<open>call_llm no_response_env ''prompt'' initial_config 1 fresh =
     (Inr ''{"appraisal":"Threat"}'',
      emit DEBUG (RawLLMResponse 1 ''{"appraisal":"Threat"}'') (fresh\<lparr>api_calls := 1\<rparr>)) \<and>
   ''response'' \<notin> fst ` set [(''appraisal'', JStr ''Threat'')] \<and>
   fst (ensure_response 1 (JObj [(''appraisal'', JStr ''Threat'')])
          (emit DEBUG (RawLLMResponse 1 ''{"appraisal":"Threat"}'') (fresh\<lparr>api_calls := 1\<rparr>))) =
     Inr fallback_reply \<and>
   fst (try_body no_response_env sad_user ''prompt'' initial_config 1 fresh) =
     Inr (None, initial_config\<lparr>temperature := 8 / 10\<rparr>)\<close>
proof -
  let ?raw = \<open>''{"appraisal":"Threat"}''\<close>
  let ?s1 = "emit DEBUG (RawLLMResponse 1 ?raw) (fresh\<lparr>api_calls := 1\<rparr>)"
  have c: "call_llm no_response_env ''prompt'' initial_config 1 fresh = (Inr ?raw, ?s1)"
    by (simp add: run_generator no_response_env_def fresh_def)
  have p: "parse_json no_response_env (strip_fences ?raw) ?s1 =
             (Inr (JObj [(''appraisal'', JStr ''Threat'')]), ?s1)"
    by (simp add: run_generator no_response_env_def)
  have k: "''response'' \<notin> fst ` set [(''appraisal'', JStr ''Threat'')]"
    by simp
  have t: "fst (try_body no_response_env sad_user ''prompt'' initial_config 1 fresh) =
             Inr (None, initial_config\<lparr>temperature := 8 / 10\<rparr>)"
    by (simp add: run_generator no_response_env_def fresh_def fallback_reply_def
        happy_reading_def sad_user_def initial_config_def)
  show ?thesis
    using c k t missing_response_substitutes_fallback [OF c p k, of sad_user]
    by simp
qed

section \<open>Response generator: the attempt loop\<close>

lemma api_calls_emit [simp]: "api_calls (emit lv ev s) = api_calls s"
  by (simp add: emit_def)

lemma call_llm_counts: "api_calls (snd (call_llm W prompt cfg attempt s)) = Suc (api_calls s)"
  by (simp add: call_llm_def Let_def split: sum.split option.split)

lemma validate_response_api_calls:
  "api_calls (snd (validate_response W r expected s)) = api_calls s"
  by (simp add: validate_response_def Let_def split: sum.split)

lemma parse_json_api_calls: "api_calls (snd (parse_json W raw s)) = api_calls s"
  by (simp add: parse_json_def Let_def split: option.split)

lemma ensure_response_api_calls: "api_calls (snd (ensure_response attempt data s)) = api_calls s"
  by (simp add: ensure_response_def split: sum.split bool.split)

lemma judge_api_calls: "api_calls (snd (judge W analysis cfg attempt data s)) = api_calls s"
proof (cases "py_getitem data ''response''")
  case (Inl e)
  then show ?thesis by (simp add: judge_def)
next
  case (Inr r)
  obtain ok s1 where v: "validate_response W r (primary_emotion analysis) s = (ok, s1)"
    by (cases "validate_response W r (primary_emotion analysis) s")
  with validate_response_api_calls [of W r "primary_emotion analysis" s]
  have "api_calls s1 = api_calls s"
    by simp
  then show ?thesis
    by (cases ok) (simp_all add: judge_def Inr v)
qed

lemma try_body_counts:
  "api_calls (snd (try_body W analysis prompt cfg attempt s)) = Suc (api_calls s)"
proof -
  obtain r1 s1 where c: "call_llm W prompt cfg attempt s = (r1, s1)"
    by (cases "call_llm W prompt cfg attempt s")
  with call_llm_counts [of W prompt cfg attempt s] have s1: "api_calls s1 = Suc (api_calls s)"
    by simp
  show ?thesis
  proof (cases r1)
    case (Inl e)
    with c s1 show ?thesis by (simp add: try_body_def)
  next
    case raw: (Inr raw)
    obtain r2 s2 where p: "parse_json W (strip_fences raw) s1 = (r2, s2)"
      by (cases "parse_json W (strip_fences raw) s1")
    with parse_json_api_calls [of W "strip_fences raw" s1] s1
    have s2: "api_calls s2 = Suc (api_calls s)"
      by simp
    show ?thesis
    proof (cases r2)
      case (Inl e)
      with c raw p s2 show ?thesis by (simp add: try_body_def)
    next
      case data: (Inr data)
      obtain r3 s3 where e: "ensure_response attempt data s2 = (r3, s3)"
        by (cases "ensure_response attempt data s2")
      with ensure_response_api_calls [of attempt data s2] s2
      have s3: "api_calls s3 = Suc (api_calls s)"
        by simp
      show ?thesis
      proof (cases r3)
        case (Inl e')
        with c raw p data e s3 show ?thesis by (simp add: try_body_def)
      next
        case (Inr data')
        with c raw p data e s3 judge_api_calls [of W analysis cfg attempt data' s3]
        show ?thesis by (simp add: try_body_def)
      qed
    qed
  qed
qed

lemma attempts_counts:
  "api_calls (snd (attempts W analysis prompt ns cfg s)) \<le> api_calls s + length ns"
proof (induction ns arbitrary: cfg s)
  case Nil
  show ?case by simp
next
  case (Cons n ns)
  obtain r s' where t: "try_body W analysis prompt cfg n s = (r, s')"
    by (cases "try_body W analysis prompt cfg n s")
  with try_body_counts [of W analysis prompt cfg n s] have s': "api_calls s' = Suc (api_calls s)"
    by simp
  show ?case
  proof (cases r)
    case (Inl e)
    let ?s'' = "emit ERROR (LLMCallFailed n e) s'"
    from Cons.IH [of cfg ?s''] s'
    have "api_calls (snd (attempts W analysis prompt ns cfg ?s'')) \<le> api_calls s + length (n # ns)"
      by simp
    with t Inl s' show ?thesis
      by (simp add: Let_def)
  next
    case (Inr v)
    obtain d cfg' where v: "v = (d, cfg')"
      by (cases v)
    show ?thesis
    proof (cases d)
      case None
      from Cons.IH [of cfg' s'] s'
      have "api_calls (snd (attempts W analysis prompt ns cfg' s')) \<le> api_calls s + length (n # ns)"
        by simp
      with t Inr v None show ?thesis by simp
    next
      case (Some data)
      with t Inr v s' show ?thesis by simp
    qed
  qed
qed

lemma refine_and_respond_body_counts:
  "api_calls (snd (refine_and_respond_body W text analysis user_id s)) \<le> api_calls s + 3"
proof -
  let ?s0 = "if client_configured s then s else configure_genai s"
  have s0: "api_calls ?s0 = api_calls s"
    by (simp add: configure_genai_def)
  show ?thesis
  proof (cases "get_conversation_context W user_id")
    case (Inl e)
    with s0 show ?thesis
      by (simp add: refine_and_respond_body_def Let_def)
  next
    case (Inr ctx)
    from attempts_counts [of W analysis "create_dynamic_prompt W analysis text ctx"
        "[1 ..< max_attempts + 1]" initial_config ?s0] s0
    show ?thesis
      by (simp add: refine_and_respond_body_def Let_def Inr max_attempts_def)
  qed
qed

lemma attempts_fall_through:
  "try_body W analysis prompt cfg attempt s = (Inr (None, cfg'), s') \<Longrightarrow>
   attempts W analysis prompt (attempt # rest) cfg s = attempts W analysis prompt rest cfg' s'"
  by simp

text \<open>
  Claim C4. Every attempt makes exactly one call of the generation API, so the calls count
  the attempts. Whatever the collaborators answer, \<open>refine_and_respond_body\<close> ends after
  at most 3 of them. At any iteration of the loop, an attempt whose reply passes validation
  (\<open>try_body\<close> gives \<open>Some data\<close>) ends the loop at once: the function returns that reply in
  the state the attempt left, one API call after the iteration began.
\<close>

theorem at_most_three_attempts_first_pass_returns:
  "api_calls (snd (refine_and_respond_body W text analysis user_id s)) \<le> api_calls s + 3 \<and>
   (try_body W analysis prompt cfg attempt st = (Inr (Some data, cfg'), st') \<longrightarrow>
      attempts W analysis prompt (attempt # rest) cfg st = (Inr data, st') \<and>
      api_calls st' = api_calls st + 1)"
proof -
  have "api_calls st' = api_calls st + 1"
    if "try_body W analysis prompt cfg attempt st = (Inr (Some data, cfg'), st')"
    using that try_body_counts [of W analysis prompt cfg attempt st] by simp
  then show ?thesis
    using refine_and_respond_body_counts by simp
qed

text \<open>A run in which the second reply is the first to pass: two API calls.\<close>

theorem at_most_three_attempts_first_pass_returns_witness:
  \<open>fst (try_body second_try_env sad_user ''prompt'' initial_config 1 fresh) =
     Inr (None, initial_config\<lparr>temperature := 8 / 10\<rparr>) \<and>
   fst (attempts second_try_env sad_user ''prompt'' [1 ..< max_attempts + 1] initial_config fresh) =
     Inr (JObj [(''response'', JStr ''second'')]) \<and>
   api_calls (snd (attempts second_try_env sad_user ''prompt'' [1 ..< max_attempts + 1]
                     initial_config fresh)) = 2 \<and>
   api_calls (snd (refine_and_respond_body second_try_env ''hello'' sad_user ''u1'' fresh)) \<le> 3\<close>
proof -
  let ?c1 = "initial_config\<lparr>temperature := 8 / 10\<rparr>"
  let ?d = "JObj [(''response'', JStr ''second'')]"
  let ?t1 = "try_body second_try_env sad_user ''prompt'' initial_config 1 fresh"
  let ?t2 = "try_body second_try_env sad_user ''prompt'' ?c1 2 (snd ?t1)"
  have g1: "fst ?t1 = Inr (None, ?c1)"
    by (simp add: run_generator second_try_env_def numbered_reply_def fresh_def
        happy_reading_def sad_reading_def sad_user_def initial_config_def)
  have g2: "fst ?t2 = Inr (Some ?d, ?c1)"
    by (simp add: run_generator second_try_env_def numbered_reply_def fresh_def
        happy_reading_def sad_reading_def sad_user_def initial_config_def)
  have a0: "api_calls (snd ?t1) = 1"
    by (simp add: run_generator second_try_env_def numbered_reply_def fresh_def
        happy_reading_def sad_reading_def sad_user_def initial_config_def)
  have f1: "?t1 = (Inr (None, ?c1), snd ?t1)"
    using g1 by (simp add: prod_eq_iff)
  have f2: "?t2 = (Inr (Some ?d, ?c1), snd ?t2)"
    using g2 by (simp add: prod_eq_iff)
  note inst = at_most_three_attempts_first_pass_returns
    [of second_try_env "''hello''" sad_user "''u1''" fresh "''prompt''" ?c1 2 "snd ?t1" ?d ?c1
      "snd ?t2" "[3]"]
  from inst f2
  have r: "attempts second_try_env sad_user ''prompt'' [2, 3] ?c1 (snd ?t1) = (Inr ?d, snd ?t2)"
    by (simp only:)
  from inst f2 have n: "api_calls (snd ?t2) = api_calls (snd ?t1) + 1"
    by (simp only:)
  from inst have b: "api_calls (snd (refine_and_respond_body second_try_env ''hello'' sad_user ''u1'' fresh))
              \<le> api_calls fresh + 3"
    by (rule conjunct1)
  have e: "attempts second_try_env sad_user ''prompt'' [1 ..< max_attempts + 1] initial_config fresh =
          (Inr ?d, snd ?t2)"
    unfolding upto_max_attempts using attempts_fall_through [OF f1, of "[2, 3]"] r
    by (simp only:)
  have n2: "api_calls (snd ?t2) = 2"
    unfolding n a0 by simp
  have b3: "api_calls (snd (refine_and_respond_body second_try_env ''hello'' sad_user ''u1'' fresh)) \<le> 3"
    using b by (simp add: fresh_def)
  show ?thesis
    unfolding e fst_conv snd_conv using g1 n2 b3 by (simp only: simp_thms)
qed

text \<open>An attempt falls through to the next iteration only after its reply has failed
  validation.\<close>

lemma try_body_fall_through:
  assumes "try_body W analysis prompt cfg attempt s = (Inr (None, cfg'), s')"
  shows "\<exists>data r s3 s4.
           py_getitem data ''response'' = Inr r \<and>
           validate_response W r (primary_emotion analysis) s3 = (False, s4) \<and>
           s' = emit WARNING (ValidationFailedOnAttempt attempt) s4 \<and>
           cfg' = cfg\<lparr>temperature := min (9 / 10) (temperature cfg + 1 / 10)\<rparr>"
  using assms
  by (auto simp: try_body_def judge_def split: sum.splits prod.splits bool.splits)

lemma retry_async_success:
  "f s = (Inr v, s') \<Longrightarrow> retry_async n f s = (Inr v, s')"
  by (cases n) simp_all


text \<open>
  Claim C1, amended. When all three attempts end with a reply that fails validation, the
  generator logs \<^verbatim>\<open>Max validation attempts reached. Using fallback.\<close> at level WARNING and
  returns the fixed fallback reply (appraisal \<^verbatim>\<open>Challenge\<close>, no regulation, the greeting); it
  does not raise, with or without its decorators, and \<open>generate_emotional_response\<close>
  answers the greeting. The reply of the last attempt is dropped.
\<close>

theorem exhausted_attempts_return_fallback:
  assumes "get_conversation_context W user_id = Inr ctx"
    and "prompt = create_dynamic_prompt W analysis text ctx"
    and "s0 = (if client_configured s then s else configure_genai s)"
    and "try_body W analysis prompt initial_config 1 s0 = (Inr (None, cfg1), s1)"
    and "try_body W analysis prompt cfg1 2 s1 = (Inr (None, cfg2), s2)"
    and "try_body W analysis prompt cfg2 3 s2 = (Inr (None, cfg3), s3)"
  shows "refine_and_respond_body W text analysis user_id s =
           (Inr fallback_reply, emit WARNING MaxValidationAttemptsReached s3) \<and>
         refine_and_respond W text analysis user_id s =
           (Inr fallback_reply, emit WARNING MaxValidationAttemptsReached s3) \<and>
         fst (generate_emotional_response W text analysis model_name user_id s) =
           JStr fallback_text"
proof -
  have "attempts W analysis prompt [1, 2, 3] initial_config s0 =
          (Inr fallback_reply, emit WARNING MaxValidationAttemptsReached s3)"
    using assms(4-6) by simp
  then have body: "refine_and_respond_body W text analysis user_id s =
          (Inr fallback_reply, emit WARNING MaxValidationAttemptsReached s3)"
    unfolding refine_and_respond_body_def upto_max_attempts Let_def
    by (simp add: assms(1-3))
  then have deco: "refine_and_respond W text analysis user_id s =
          (Inr fallback_reply, emit WARNING MaxValidationAttemptsReached s3)"
    unfolding refine_and_respond_def by (rule retry_async_success)
  have "py_get fallback_reply ''response'' (JStr canned_text) = Inr (JStr fallback_text)"
    by (simp add: fallback_reply_def)
  with deco have "fst (generate_emotional_response W text analysis model_name user_id s) =
          JStr fallback_text"
    by (simp add: generate_emotional_response_def)
  with body deco show ?thesis
    by simp
qed

text \<open>
  Claim C1 says that the reply of the last attempt is returned when no attempt passes.
  Here the API answers \<^verbatim>\<open>first\<close>, \<^verbatim>\<open>second\<close>, \<^verbatim>\<open>third\<close>, each reply is read as happy while
  the user is sad, and the function returns the fixed fallback reply, not the third reply.
\<close>

theorem exhausted_attempts_counterexample:
  \<open>refine_and_respond_body mismatch_env ''I failed my exam'' sad_user ''u1'' fresh =
     (Inr fallback_reply,
      \<lparr>client_configured = True, api_calls = 3, analyze_calls = 3,
       logged =
         [(INFO, ClientConfigured),
          (DEBUG, RawLLMResponse 1 ''{"response":"first"}''),
          (WARNING, EmotionMismatch ''sad'' ''happy''),
          (WARNING, ValidationFailedOnAttempt 1),
          (DEBUG, RawLLMResponse 2 ''{"response":"second"}''),
          (WARNING, EmotionMismatch ''sad'' ''happy''),
          (WARNING, ValidationFailedOnAttempt 2),
          (DEBUG, RawLLMResponse 3 ''{"response":"third"}''),
          (WARNING, EmotionMismatch ''sad'' ''happy''),
          (WARNING, ValidationFailedOnAttempt 3),
          (WARNING, MaxValidationAttemptsReached)]\<rparr>) \<and>
   fallback_reply \<noteq> JObj [(''response'', JStr ''third'')]\<close>
  unfolding refine_and_respond_body_def upto_max_attempts
  by (simp add: run_generator mismatch_env_def numbered_reply_def fresh_def max_attempts_def
      happy_reading_def sad_user_def fallback_reply_def)

text \<open>The amended claim on the same run.\<close>

theorem exhausted_attempts_return_fallback_witness:
  \<open>get_conversation_context mismatch_env ''u1'' = Inr [] \<and>
   fst (try_body mismatch_env sad_user
          (create_dynamic_prompt mismatch_env sad_user ''I failed my exam'' [])
          initial_config 1 (configure_genai fresh)) =
     Inr (None, initial_config\<lparr>temperature := 8 / 10\<rparr>) \<and>
   fst (refine_and_respond_body mismatch_env ''I failed my exam'' sad_user ''u1'' fresh) =
     Inr fallback_reply \<and>
   last (logged (snd (refine_and_respond_body mismatch_env ''I failed my exam'' sad_user ''u1''
                       fresh))) =
     (WARNING, MaxValidationAttemptsReached) \<and>
   fst (generate_emotional_response mismatch_env ''I failed my exam'' sad_user ''gemini'' ''u1''
          fresh) = JStr fallback_text\<close>
proof -
  let ?p = "create_dynamic_prompt mismatch_env sad_user ''I failed my exam'' []"
  let ?s0 = "configure_genai fresh"
  let ?c1 = "initial_config\<lparr>temperature := 8 / 10\<rparr>"
  let ?c2 = "initial_config\<lparr>temperature := 9 / 10\<rparr>"
  let ?t1 = "try_body mismatch_env sad_user ?p initial_config 1 ?s0"
  let ?t2 = "try_body mismatch_env sad_user ?p ?c1 2 (snd ?t1)"
  let ?t3 = "try_body mismatch_env sad_user ?p ?c2 3 (snd ?t2)"
  have c: "get_conversation_context mismatch_env ''u1'' = Inr []"
    by (simp add: mismatch_env_def sample_env_def)
  have s0: "?s0 = (if client_configured fresh then fresh else configure_genai fresh)"
    by (simp add: fresh_def)
  have f1: "fst ?t1 = Inr (None, ?c1)"
    by (simp add: run_generator mismatch_env_def numbered_reply_def fresh_def
        happy_reading_def sad_user_def initial_config_def)
  have f2: "fst ?t2 = Inr (None, ?c2)"
    by (simp add: run_generator mismatch_env_def numbered_reply_def fresh_def
        happy_reading_def sad_user_def initial_config_def)
  have f3: "fst ?t3 = Inr (None, ?c2)"
    by (simp add: run_generator mismatch_env_def numbered_reply_def fresh_def
        happy_reading_def sad_user_def initial_config_def)
  have h1: "?t1 = (Inr (None, ?c1), snd ?t1)"
    using f1 by (simp add: prod_eq_iff)
  have h2: "?t2 = (Inr (None, ?c2), snd ?t2)"
    using f2 by (simp add: prod_eq_iff)
  have h3: "?t3 = (Inr (None, ?c2), snd ?t3)"
    using f3 by (simp add: prod_eq_iff)
  show ?thesis
    using c f1 exhausted_attempts_return_fallback [OF c refl s0 h1 h2 h3, of "''gemini''"]
    by (simp add: emit_def)
qed







section \<open>Chat interface: the submit guard\<close>

lemma hd_rev_dropWhile:
  assumes "y \<noteq> []" "\<not> P (hd y)"
  shows "rev (dropWhile P (rev y)) \<noteq> [] \<and> hd (rev (dropWhile P (rev y))) = hd y"
proof -
  from assms obtain a ys where y: "y = a # ys" and a: "\<not> P a"
    by (cases y) auto
  have "dropWhile P (rev ys @ [a]) = dropWhile P (rev ys) @ [a]"
    using a by (simp add: dropWhile_append3)
  then show ?thesis
    by (simp add: y)
qed

lemma trim_ends:
  assumes "trim s \<noteq> []"
  shows "\<not> js_whitespace (hd (trim s)) \<and> \<not> js_whitespace (last (trim s))"
proof -
  let ?u = "dropWhile js_whitespace s"
  let ?z = "dropWhile js_whitespace (rev ?u)"
  have "?u = [] \<Longrightarrow> trim s = []"
    unfolding trim_def by (simp del: dropWhile_eq_Nil_conv)
  with assms have u: "?u \<noteq> []"
    by blast
  then have "\<not> js_whitespace (hd ?u)"
    by (rule hd_dropWhile)
  with u hd_rev_dropWhile [of ?u js_whitespace] have "hd (trim s) = hd ?u" "\<not> js_whitespace (hd ?u)"
    by (simp_all add: trim_def)
  moreover from assms have z: "?z \<noteq> []"
    unfolding trim_def by (simp del: dropWhile_eq_Nil_conv)
  then have "\<not> js_whitespace (hd ?z)"
    by (rule hd_dropWhile)
  with z have "\<not> js_whitespace (last (trim s))"
    by (simp add: trim_def last_rev)
  ultimately show ?thesis
    by simp
qed

lemma trim_trim: "trim (trim s) = trim s"
proof (cases "trim s = []")
  case True
  show ?thesis
    by (simp only: True) (simp add: trim_def)
next
  case False
  let ?y = "trim s"
  from trim_ends [OF False] have h: "\<not> js_whitespace (hd ?y)" and l: "\<not> js_whitespace (last ?y)"
    by simp_all
  from False h have d: "dropWhile js_whitespace ?y = ?y"
    by (simp add: dropWhile_eq_self_iff)
  from False obtain ys a where y: "?y = ys @ [a]"
    by (cases ?y rule: rev_cases) auto
  with l have "\<not> js_whitespace a"
    by simp
  then have "rev (dropWhile js_whitespace (rev (ys @ [a]))) = ys @ [a]"
    by simp
  then have "rev (dropWhile js_whitespace (rev ?y)) = ?y"
    by (simp only: y)
  then have "rev (dropWhile js_whitespace (rev (dropWhile js_whitespace ?y))) = ?y"
    by (simp only: d)
  then show ?thesis
    by (simp only: trim_def [of ?y])
qed

text \<open>
  Claim C10. When the trimmed input is empty or a request is in flight, \<open>handleSubmit\<close>
  issues no request and leaves the messages, the input value, the loading flag and the
  error as they are. Every request it issues goes to \<^verbatim>\<open>/chat\<close> with the trimmed input as its
  message, which is not empty and has no white space at either end.
\<close>

theorem handleSubmit_guard:
  "(trim (inputValue s) = [] \<or> isLoading s \<longrightarrow> handleSubmit clk fetch s = (s, [])) \<and>
   (\<forall>r \<in> set (snd (handleSubmit clk fetch s)).
      request_path r = ''/chat'' \<and>
      request_message r = trim (inputValue s) \<and>
      request_message r \<noteq> [] \<and>
      trim (request_message r) = request_message r)"
proof
  show "trim (inputValue s) = [] \<or> isLoading s \<longrightarrow> handleSubmit clk fetch s = (s, [])"
    by (auto simp: handleSubmit_def Let_def)
  show "\<forall>r \<in> set (snd (handleSubmit clk fetch s)).
      request_path r = ''/chat'' \<and>
      request_message r = trim (inputValue s) \<and>
      request_message r \<noteq> [] \<and>
      trim (request_message r) = request_message r"
  proof
    fix r
    assume r: "r \<in> set (snd (handleSubmit clk fetch s))"
    then have sent: "\<not> (trim (inputValue s) = [] \<or> isLoading s)"
      by (auto simp: handleSubmit_def Let_def)
    with r have "r = \<lparr>request_method = ''POST'', request_path = ''/chat'',
                       request_message = trim (inputValue s)\<rparr>"
      by (simp add: handleSubmit_def Let_def)
    with sent show "request_path r = ''/chat'' \<and>
        request_message r = trim (inputValue s) \<and>
        request_message r \<noteq> [] \<and>
        trim (request_message r) = request_message r"
      by (simp add: trim_trim)
  qed
qed



text \<open>A blank input, a submit while loading, and an input that is sent trimmed.\<close>

theorem handleSubmit_guard_witness:
  "trim (inputValue blank_input) = [] \<and>
   handleSubmit sample_clock backend_down blank_input = (blank_input, []) \<and>
   isLoading busy_input \<and>
   handleSubmit sample_clock backend_down busy_input = (busy_input, []) \<and>
   snd (handleSubmit sample_clock backend_down typed_input) =
     [\<lparr>request_method = ''POST'', request_path = ''/chat'', request_message = js ''hi''\<rparr>]"
proof -
  have b: "trim (inputValue blank_input) = []"
    by (simp add: blank_input_def trim_def js_def js_whitespace_def)
  have l: "isLoading busy_input"
    by (simp add: busy_input_def)
  have t: "snd (handleSubmit sample_clock backend_down typed_input) =
             [\<lparr>request_method = ''POST'', request_path = ''/chat'', request_message = js ''hi''\<rparr>]"
    by (simp add: handleSubmit_def Let_def typed_input_def trim_def js_def js_whitespace_def)
  show ?thesis
    using b l t handleSubmit_guard [of blank_input sample_clock backend_down]
      handleSubmit_guard [of busy_input sample_clock backend_down]
      handleSubmit_guard [of typed_input sample_clock backend_down]
    by simp
qed

end
